theory Spec2Isabelle
  imports Complex_Main
begin

section \<open>Python values\<close>

text \<open>
  The values that flow through \<^verbatim>\<open>llm_tracer.py\<close>: call arguments, results, parameters
  and the component dictionaries themselves. A Python \<^verbatim>\<open>dict\<close> with string keys is an
  association list in insertion order. \<open>PObj\<close> is an arbitrary object; it carries its
  \<^verbatim>\<open>metadata\<close> attribute (a dict, as LangChain's run manager declares it) when it has
  one. \<open>PCoro\<close> is the un-awaited coroutine object that calling a coroutine function
  returns. Floats are carried as rationals; their rounding is not modelled.
\<close>

datatype pyval =
    PNone
  | PBool bool
  | PInt int
  | PFloat rat
  | PStr string
  | PList "pyval list"
  | PDict "(string \<times> pyval) list"
  | PObj "(string \<times> pyval) list option"
  | PCoro string

type_synonym pydict = "(string \<times> pyval) list"

text \<open>\<^verbatim>\<open>isinstance(value, (str, int, float, bool))\<close>\<close>

fun is_scalar :: "pyval \<Rightarrow> bool" where
  "is_scalar (PBool b) = True"
| "is_scalar (PInt i) = True"
| "is_scalar (PFloat r) = True"
| "is_scalar (PStr s) = True"
| "is_scalar v = False"

text \<open>Python truthiness, as used by \<^verbatim>\<open>if self.gt:\<close> and \<^verbatim>\<open>if metrics:\<close>.\<close>

fun truthy :: "pyval \<Rightarrow> bool" where
  "truthy PNone = False"
| "truthy (PBool b) = b"
| "truthy (PInt i) = (i \<noteq> 0)"
| "truthy (PFloat r) = (r \<noteq> 0)"
| "truthy (PStr s) = (s \<noteq> [])"
| "truthy (PList xs) = (xs \<noteq> [])"
| "truthy (PDict d) = (d \<noteq> [])"
| "truthy (PObj m) = True"
| "truthy (PCoro n) = True"

text \<open>
  \<^verbatim>\<open>d[k] = v\<close> on an insertion-ordered dict: an existing key keeps its position and takes
  the new value, a new key goes to the end. \<^verbatim>\<open>d.update(e)\<close> assigns the items of \<open>e\<close> in
  order.
\<close>

fun dict_set :: "('k \<times> 'v) list \<Rightarrow> 'k \<Rightarrow> 'v \<Rightarrow> ('k \<times> 'v) list" where
  "dict_set [] k v = [(k, v)]"
| "dict_set ((k', v') # d) k v =
     (if k' = k then (k, v) # d else (k', v') # dict_set d k v)"

fun dict_update :: "('k \<times> 'v) list \<Rightarrow> ('k \<times> 'v) list \<Rightarrow> ('k \<times> 'v) list" where
  "dict_update d [] = d"
| "dict_update d ((k, v) # e) = dict_update (dict_set d k v) e"

definition dict_get :: "('k \<times> 'v) list \<Rightarrow> 'k \<Rightarrow> 'v option" where
  "dict_get d k = map_of d k"

text \<open>\<^verbatim>\<open>x.startswith(p)\<close>\<close>

fun startswith :: "string \<Rightarrow> string \<Rightarrow> bool" where
  "startswith x [] = True"
| "startswith [] (p # ps) = False"
| "startswith (c # cs) (p # ps) = (c = p \<and> startswith cs ps)"

text \<open>\<^verbatim>\<open>str(n)\<close> for a non-negative integer, as the f-string renders the counter.\<close>

definition digit_char :: "nat \<Rightarrow> char" where
  "digit_char d = char_of (48 + d)"

fun str_nat :: "nat \<Rightarrow> string" where
  "str_nat n = (if n < 10 then [digit_char n] else str_nat (n div 10) @ [digit_char (n mod 10)])"

declare str_nat.simps [simp del]

section \<open>Faults and call outcomes\<close>

text \<open>
  A raised Python exception: \<^verbatim>\<open>type(e).__name__\<close>, \<^verbatim>\<open>str(e)\<close>, and whether its class
  derives from \<^verbatim>\<open>Exception\<close> (\<^verbatim>\<open>KeyboardInterrupt\<close>, \<^verbatim>\<open>SystemExit\<close> and
  \<^verbatim>\<open>asyncio.CancelledError\<close> derive from \<^verbatim>\<open>BaseException\<close> only), which is what an
  \<^verbatim>\<open>except Exception\<close> clause tests.
\<close>

record fault =
  etype :: string
  emessage :: string
  is_exception :: bool

datatype outcome = Returned pyval | Raised fault

section \<open>Tracer state\<close>

text \<open>
  A metric as a span stores it: its name (a \<^verbatim>\<open>str\<close>) and its remaining fields (score,
  reasoning, cost, latency, metadata, config).
\<close>

record metric =
  mname :: string
  mfields :: pydict

definition metric_dict :: "metric \<Rightarrow> pyval" where
  "metric_dict m = PDict ((''name'', PStr (mname m)) # mfields m)"

text \<open>
  Modelled from the spec: the class \<^verbatim>\<open>SpanAttributes\<close> (imported from
  \<^verbatim>\<open>utils.span_attributes\<close>) holds the user-declared tags, metadata, metrics and feedback
  pending for a span name; a fresh instance has none.
\<close>

record span_attributes =
  sa_tags :: "string list"
  sa_metadata :: pydict
  sa_metrics :: "metric list"
  sa_feedback :: "pyval list"

definition SpanAttributes :: span_attributes where
  "SpanAttributes = \<lparr>sa_tags = [], sa_metadata = [], sa_metrics = [], sa_feedback = []\<rparr>"

text \<open>
  The fields of \<^verbatim>\<open>LLMTracerMixin\<close> and those of its base class that the mixin reads and
  writes (\<^verbatim>\<open>is_active\<close>, \<^verbatim>\<open>span_attributes_dict\<close>, \<^verbatim>\<open>visited_metrics\<close>, \<^verbatim>\<open>gt\<close>, the
  context variables \<^verbatim>\<open>current_agent_id\<close> and \<^verbatim>\<open>agent_children\<close>). \<open>components\<close> is the
  trace's list of top-level components, the output sink; \<open>logged\<close> is what the module
  logger received at error level. Patch records name their target object and original
  callable by identity.
\<close>

record tracer =
  is_active :: bool
  auto_instrument_llm :: bool
  auto_instrument_network :: bool
  auto_instrument_user_interaction :: bool
  patches :: "(nat \<times> string \<times> nat) list"
  model_costs :: "(string \<times> (string \<times> rat) list) list"
  component_network_calls :: "string \<rightharpoonup> pyval list"
  component_user_interaction :: "string \<rightharpoonup> pyval list"
  current_component_id :: "string option"
  current_llm_call_name :: "string option"
  total_tokens :: int
  total_cost :: rat
  llm_data :: pydict
  span_attributes_dict :: "string option \<rightharpoonup> span_attributes"
  visited_metrics :: "string list"
  gt :: pyval
  current_agent_id :: "string option"
  agent_children :: "pydict list"
  components :: "pydict list"
  logged :: "string list"

definition MAX_PARAMETERS_TO_DISPLAY :: nat where
  "MAX_PARAMETERS_TO_DISPLAY = 10"

text \<open>
  A wrapped callable: its \<^verbatim>\<open>__name__\<close>, whether \<^verbatim>\<open>asyncio.iscoroutinefunction\<close> holds of
  it, and what running its body to completion on given arguments does: the outcome, and
  the tracer state it leaves (the body may itself go through patched calls). For a
  coroutine function this is the outcome of awaiting its coroutine, the fault being the
  one that leaves the coroutine.
\<close>

record callable =
  fname :: string
  is_coroutine_function :: bool
  body :: "pyval list \<Rightarrow> pydict \<Rightarrow> tracer \<Rightarrow> outcome \<times> tracer"

text \<open>
  The extraction helpers of \<^verbatim>\<open>utils.llm_utils\<close> and \<^verbatim>\<open>utils.unique_decorator\<close> are
  parameters of the model. Token usage maps counter names to integers, a cost breakdown
  maps names to amounts; \<^verbatim>\<open>extract_llm_output\<close> yields an object whose
  \<^verbatim>\<open>output_response\<close> is the given value.
\<close>

record collaborators =
  extract_model_name :: "pyval list \<Rightarrow> pydict \<Rightarrow> pyval \<Rightarrow> string"
  extract_token_usage :: "pyval \<Rightarrow> (string \<times> int) list"
  calculate_llm_cost ::
    "(string \<times> int) list \<Rightarrow> string \<Rightarrow> (string \<times> (string \<times> rat) list) list \<Rightarrow> (string \<times> rat) list"
  extract_parameters :: "pydict \<Rightarrow> pydict"
  extract_input_data :: "pyval list \<Rightarrow> pydict \<Rightarrow> pyval \<Rightarrow> pyval"
  extract_llm_output :: "pyval \<Rightarrow> pyval"
  generate_unique_hash_simple :: "callable \<Rightarrow> string"

text \<open>
  What one invocation reads from its environment: the clock at entry and at build time
  (already in ISO format), the resident memory before and after the call, the fresh
  \<^verbatim>\<open>uuid4\<close>, and whether the calling thread already runs an event loop.
\<close>

record env =
  now_start :: string
  now_end :: string
  rss_start :: int
  rss_end :: int
  uuid4 :: string
  loop_running :: bool

section \<open>Component builder\<close>

text \<open>
  The display projection of \<^verbatim>\<open>create_llm_component\<close>: the metadata of a
  \<^verbatim>\<open>run_manager\<close> parameter first, then every scalar-valued parameter, then the cut to
  the first \<^verbatim>\<open>MAX_PARAMETERS_TO_DISPLAY\<close> items.
\<close>

definition run_manager_metadata :: "pydict \<Rightarrow> pydict" where
  "run_manager_metadata parameters =
     (case dict_get parameters ''run_manager'' of
        Some (PObj (Some metadata)) \<Rightarrow> dict_update [] metadata
      | _ \<Rightarrow> [])"

fun add_scalars :: "pydict \<Rightarrow> pydict \<Rightarrow> pydict" where
  "add_scalars shown [] = shown"
| "add_scalars shown ((key, val) # rest) =
     (if is_scalar val then add_scalars (dict_set shown key val) rest
      else add_scalars shown rest)"

definition parameters_to_display :: "pydict \<Rightarrow> pydict" where
  "parameters_to_display parameters =
     take MAX_PARAMETERS_TO_DISPLAY
       (add_scalars (run_manager_metadata parameters) parameters)"

text \<open>
  The metric loop: the counter is the number of names visited so far, by any component
  of this tracer, that start with the metric's name.
\<close>

definition suffixed :: "string \<Rightarrow> nat \<Rightarrow> string" where
  "suffixed base_metric_name counter =
     (if counter > 0 then base_metric_name @ ''_'' @ str_nat counter else base_metric_name)"

definition metric_name :: "string list \<Rightarrow> string \<Rightarrow> string" where
  "metric_name visited base_metric_name =
     (let counter = length (filter (\<lambda>x. startswith x base_metric_name) visited)
      in suffixed base_metric_name counter)"

fun rename_metrics :: "string list \<Rightarrow> metric list \<Rightarrow> metric list \<times> string list" where
  "rename_metrics visited [] = ([], visited)"
| "rename_metrics visited (m # raw_metrics) =
     (let metric_name = metric_name visited (mname m);
          (metrics, visited') = rename_metrics (visited @ [metric_name]) raw_metrics
      in (m\<lparr>mname := metric_name\<rparr> # metrics, visited'))"

record component_args =
  a_component_id :: string
  a_hash_id :: string
  a_name :: string
  a_llm_type :: string
  a_version :: pyval
  a_memory_used :: int
  a_start_time :: string
  a_input_data :: pyval
  a_output_data :: "pyval option"
  a_cost :: "(string \<times> rat) list"
  a_usage :: "(string \<times> int) list"
  a_error :: pyval
  a_parameters :: pydict

definition opt_str :: "string option \<Rightarrow> pyval" where
  "opt_str x = (case x of None \<Rightarrow> PNone | Some v \<Rightarrow> PStr v)"

definition get_or :: "('k \<times> 'v) list \<Rightarrow> 'k \<Rightarrow> 'v \<Rightarrow> 'v" where
  "get_or d k dflt = (case dict_get d k of None \<Rightarrow> dflt | Some v \<Rightarrow> v)"

definition buffer_get :: "(string \<rightharpoonup> pyval list) \<Rightarrow> string \<Rightarrow> pyval list" where
  "buffer_get buffers component_id =
     (case buffers component_id of None \<Rightarrow> [] | Some calls \<Rightarrow> calls)"

text \<open>
  \<^verbatim>\<open>create_llm_component\<close>. No value of the model has an \<^verbatim>\<open>args\<close> attribute, so the
  component's input is \<^verbatim>\<open>input_data\<close> itself; \<^verbatim>\<open>output_data\<close> is \<^verbatim>\<open>None\<close> or the object
  whose \<^verbatim>\<open>output_response\<close> is the value given.
\<close>

definition create_llm_component :: "env \<Rightarrow> component_args \<Rightarrow> tracer \<Rightarrow> pydict \<times> tracer" where
  "create_llm_component E a s =
     (let s1 = s\<lparr>total_tokens := total_tokens s + get_or (a_usage a) ''total_tokens'' 0,
                 total_cost := total_cost s + get_or (a_cost a) ''total_cost'' 0\<rparr>;
          network_calls =
            (if auto_instrument_network s1
             then buffer_get (component_network_calls s1) (a_component_id a) else []);
          interactions =
            (if auto_instrument_user_interaction s1
             then buffer_get (component_user_interaction s1) (a_component_id a) else []);
          shown = parameters_to_display (a_parameters a);
          tags = (case span_attributes_dict s1 (Some (a_name a)) of
                    None \<Rightarrow> [] | Some sp \<Rightarrow> sa_tags sp);
          (metrics, visited) =
            (case span_attributes_dict s1 (Some (a_name a)) of
               None \<Rightarrow> ([], visited_metrics s1)
             | Some sp \<Rightarrow> rename_metrics (visited_metrics s1) (sa_metrics sp));
          s2 = s1\<lparr>visited_metrics := visited\<rparr>;
          data = [(''input'', a_input_data a),
                  (''output'', (case a_output_data a of None \<Rightarrow> PNone | Some r \<Rightarrow> r)),
                  (''memory_used'', PInt (a_memory_used a))];
          component =
            [(''id'', PStr (a_component_id a)),
             (''hash_id'', PStr (a_hash_id a)),
             (''source_hash_id'', PNone),
             (''type'', PStr ''llm''),
             (''name'', PStr (a_name a)),
             (''start_time'', PStr (a_start_time a)),
             (''end_time'', PStr (now_end E)),
             (''error'', a_error a),
             (''parent_id'', opt_str (current_agent_id s2)),
             (''info'', PDict (dict_update
                [(''model'', PStr (a_llm_type a)),
                 (''version'', a_version a),
                 (''memory_used'', PInt (a_memory_used a)),
                 (''cost'', PDict (map (\<lambda>(k, v). (k, PFloat v)) (a_cost a))),
                 (''tokens'', PDict (map (\<lambda>(k, v). (k, PInt v)) (a_usage a))),
                 (''tags'', PList (map PStr tags))]
                shown)),
             (''extra_info'', PDict (a_parameters a)),
             (''data'', PDict (if truthy (gt s2) then dict_set data ''gt'' (gt s2) else data)),
             (''metrics'', PList (map metric_dict metrics)),
             (''network_calls'', PList network_calls),
             (''interactions'', PList interactions)]
      in (component,
          s2\<lparr>span_attributes_dict := (span_attributes_dict s2)(Some (a_name a) \<mapsto> SpanAttributes)\<rparr>))"

definition start_component :: "tracer \<Rightarrow> string \<Rightarrow> tracer" where
  "start_component s component_id =
     s\<lparr>component_network_calls := (component_network_calls s)(component_id \<mapsto> []),
       current_component_id := Some component_id\<rparr>"

definition end_component :: "tracer \<Rightarrow> string \<Rightarrow> tracer" where
  "end_component s component_id = s\<lparr>current_component_id := None\<rparr>"

text \<open>
  Modelled from the spec: \<^verbatim>\<open>add_component\<close> is defined in the tracer's base class, which
  is not part of the source. It is the spec's \<^verbatim>\<open>publish\<close>: if a parent is currently set,
  append to that parent's children buffer; otherwise append to the output sink.
\<close>

definition add_component :: "tracer \<Rightarrow> pydict \<Rightarrow> tracer" where
  "add_component s component =
     (case current_agent_id s of
        Some parent \<Rightarrow> s\<lparr>agent_children := agent_children s @ [component]\<rparr>
      | None \<Rightarrow> s\<lparr>components := components s @ [component]\<rparr>)"

section \<open>Invocation adapter\<close>

text \<open>
  The three ways the source runs the wrapped callable. \<^verbatim>\<open>original_func(*args, **kwargs)\<close>
  runs the body of a plain function, and only creates the coroutine object of a
  coroutine function. \<^verbatim>\<open>asyncio.run(original_func(*args, **kwargs))\<close>, which the source
  reaches for coroutine functions only, refuses to start inside a running event loop and
  otherwise runs the body to completion. \<^verbatim>\<open>await original_func(*args, **kwargs)\<close> runs
  the body of the awaited coroutine.

  Two things are left out. The source hands the asynchronous adapter coroutine functions
  only (\<^verbatim>\<open>wrap_method\<close> tests \<^verbatim>\<open>asyncio.iscoroutinefunction\<close>, and \<^verbatim>\<open>AsyncOpenAI\<close> has a
  coroutine \<^verbatim>\<open>create\<close>); for a plain function \<open>await_call\<close> is its body too, without the
  \<^verbatim>\<open>TypeError\<close> of awaiting a result that is not awaitable and without the \<^verbatim>\<open>RuntimeError\<close>
  that replaces a \<^verbatim>\<open>StopIteration\<close> leaving a coroutine. And \<^verbatim>\<open>asyncio.run\<close> runs the
  coroutine in a task with a copy of the context, which \<open>asyncio_run\<close> does not separate
  from the caller's: what the body writes to a context variable shows in the state
  returned.
\<close>

definition call :: "callable \<Rightarrow> pyval list \<Rightarrow> pydict \<Rightarrow> tracer \<Rightarrow> outcome \<times> tracer" where
  "call f args kwargs s =
     (if is_coroutine_function f then (Returned (PCoro (fname f)), s)
      else body f args kwargs s)"

definition asyncio_run_error :: fault where
  "asyncio_run_error =
     \<lparr>etype = ''RuntimeError'',
      emessage = ''asyncio.run() cannot be called from a running event loop'',
      is_exception = True\<rparr>"

definition asyncio_run :: "env \<Rightarrow> callable \<Rightarrow> pyval list \<Rightarrow> pydict \<Rightarrow> tracer \<Rightarrow> outcome \<times> tracer" where
  "asyncio_run E f args kwargs s =
     (if loop_running E then (Raised asyncio_run_error, s) else body f args kwargs s)"

definition await_call :: "callable \<Rightarrow> pyval list \<Rightarrow> pydict \<Rightarrow> tracer \<Rightarrow> outcome \<times> tracer" where
  "await_call f args kwargs s = body f args kwargs s"

definition llm_call_name :: "tracer \<Rightarrow> callable \<Rightarrow> string" where
  "llm_call_name s original_func =
     (case current_llm_call_name s of None \<Rightarrow> fname original_func | Some name \<Rightarrow> name)"

definition error_component :: "fault \<Rightarrow> pyval" where
  "error_component e =
     PDict [(''code'', PInt 500), (''type'', PStr (etype e)),
            (''message'', PStr (emessage e)), (''details'', PDict [])]"

text \<open>
  \<^verbatim>\<open>trace_llm_call\<close>, awaited to completion. A fault that is not an \<^verbatim>\<open>Exception\<close> passes
  the \<^verbatim>\<open>except Exception\<close> clause by.
\<close>

definition trace_llm_call ::
  "collaborators \<Rightarrow> env \<Rightarrow> callable \<Rightarrow> pyval list \<Rightarrow> pydict \<Rightarrow> tracer \<Rightarrow> outcome \<times> tracer" where
  "trace_llm_call C E original_func args kwargs s =
     (if \<not> is_active s then await_call original_func args kwargs s
      else if \<not> auto_instrument_llm s then await_call original_func args kwargs s
      else
        let start_time = now_start E;
            start_memory = rss_start E;
            component_id = uuid4 E;
            hash_id = generate_unique_hash_simple C original_func;
            s1 = start_component s component_id
        in case await_call original_func args kwargs s1 of
             (Returned result, s2) \<Rightarrow>
               let end_memory = rss_end E;
                   memory_used = max 0 (end_memory - start_memory);
                   model_name = extract_model_name C args kwargs result;
                   token_usage = extract_token_usage C result;
                   cost = calculate_llm_cost C token_usage model_name (model_costs s2);
                   parameters = extract_parameters C kwargs;
                   input_data = extract_input_data C args kwargs result;
                   s3 = end_component s2 component_id;
                   name = llm_call_name s3 original_func;
                   (llm_component, s4) = create_llm_component E
                     \<lparr>a_component_id = component_id, a_hash_id = hash_id, a_name = name,
                      a_llm_type = model_name, a_version = PNone, a_memory_used = memory_used,
                      a_start_time = start_time, a_input_data = input_data,
                      a_output_data = Some (extract_llm_output C result),
                      a_cost = cost, a_usage = token_usage, a_error = PNone,
                      a_parameters = parameters\<rparr> s3
               in (Returned result, s4\<lparr>llm_data := llm_component\<rparr>)
           | (Raised e, s2) \<Rightarrow>
               if \<not> is_exception e then (Raised e, s2)
               else
                 let s3 = end_component s2 component_id;
                     name = llm_call_name s3 original_func;
                     (llm_component, s4) = create_llm_component E
                       \<lparr>a_component_id = component_id, a_hash_id = hash_id, a_name = name,
                        a_llm_type = ''unknown'', a_version = PNone, a_memory_used = 0,
                        a_start_time = start_time,
                        a_input_data = extract_input_data C args kwargs PNone,
                        a_output_data = None,
                        a_cost = [], a_usage = [], a_error = error_component e,
                        a_parameters = []\<rparr> s3
                 in (Raised e, add_component s4 llm_component))"

text \<open>\<^verbatim>\<open>trace_llm_call_sync\<close>\<close>

definition trace_llm_call_sync ::
  "collaborators \<Rightarrow> env \<Rightarrow> callable \<Rightarrow> pyval list \<Rightarrow> pydict \<Rightarrow> tracer \<Rightarrow> outcome \<times> tracer" where
  "trace_llm_call_sync C E original_func args kwargs s =
     (if \<not> is_active s then
        (if is_coroutine_function original_func then asyncio_run E original_func args kwargs s
         else call original_func args kwargs s)
      else if \<not> auto_instrument_llm s then call original_func args kwargs s
      else
        let start_time = now_start E;
            component_id = uuid4 E;
            hash_id = generate_unique_hash_simple C original_func;
            s1 = start_component s component_id;
            start_memory = rss_start E
        in case (if is_coroutine_function original_func
                 then asyncio_run E original_func args kwargs s1
                 else call original_func args kwargs s1) of
             (Returned result, s2) \<Rightarrow>
               let end_memory = rss_end E;
                   memory_used = max 0 (end_memory - start_memory);
                   model_name = extract_model_name C args kwargs result;
                   token_usage = extract_token_usage C result;
                   cost = calculate_llm_cost C token_usage model_name (model_costs s2);
                   parameters = extract_parameters C kwargs;
                   input_data = extract_input_data C args kwargs result;
                   s3 = end_component s2 component_id;
                   name = llm_call_name s3 original_func;
                   (llm_component, s4) = create_llm_component E
                     \<lparr>a_component_id = component_id, a_hash_id = hash_id, a_name = name,
                      a_llm_type = model_name, a_version = PNone, a_memory_used = memory_used,
                      a_start_time = start_time, a_input_data = input_data,
                      a_output_data = Some (extract_llm_output C result),
                      a_cost = cost, a_usage = token_usage, a_error = PNone,
                      a_parameters = parameters\<rparr> s3
               in (Returned result, add_component (s4\<lparr>llm_data := llm_component\<rparr>) llm_component)
           | (Raised e, s2) \<Rightarrow>
               if \<not> is_exception e then (Raised e, s2)
               else
                 let s3 = end_component s2 component_id;
                     name = llm_call_name s3 original_func;
                     end_memory = rss_end E;
                     memory_used = max 0 (end_memory - start_memory);
                     (llm_component, s4) = create_llm_component E
                       \<lparr>a_component_id = component_id, a_hash_id = hash_id, a_name = name,
                        a_llm_type = ''unknown'', a_version = PNone, a_memory_used = memory_used,
                        a_start_time = start_time,
                        a_input_data = extract_input_data C args kwargs PNone,
                        a_output_data = None,
                        a_cost = [], a_usage = [], a_error = error_component e,
                        a_parameters = []\<rparr> s3
                 in (Raised e, add_component (s4\<lparr>llm_data := llm_component\<rparr>) llm_component))"

section \<open>Decorator facade\<close>

text \<open>
  Modelled from the spec: \<^verbatim>\<open>span\<close>, \<^verbatim>\<open>add_tags\<close>, \<^verbatim>\<open>add_metadata\<close>, \<^verbatim>\<open>add_metrics\<close> and
  \<^verbatim>\<open>add_feedback\<close> belong to the base class and to \<^verbatim>\<open>SpanAttributes\<close>, which are not
  part of the source. They register the tags, metadata, metrics and feedback supplied at
  decoration time against the span's name; \<^verbatim>\<open>span\<close> yields the name's attributes,
  creating them when absent.
\<close>

definition span :: "tracer \<Rightarrow> string option \<Rightarrow> span_attributes" where
  "span s name = (case span_attributes_dict s name of None \<Rightarrow> SpanAttributes | Some sp \<Rightarrow> sp)"

definition set_span :: "tracer \<Rightarrow> string option \<Rightarrow> span_attributes \<Rightarrow> tracer" where
  "set_span s name sp = s\<lparr>span_attributes_dict := (span_attributes_dict s)(name \<mapsto> sp)\<rparr>"

definition add_tags :: "span_attributes \<Rightarrow> string list \<Rightarrow> span_attributes" where
  "add_tags sp tags = sp\<lparr>sa_tags := sa_tags sp @ tags\<rparr>"

definition add_metadata :: "span_attributes \<Rightarrow> pydict \<Rightarrow> span_attributes" where
  "add_metadata sp metadata = sp\<lparr>sa_metadata := dict_update (sa_metadata sp) metadata\<rparr>"

definition add_metrics :: "span_attributes \<Rightarrow> string \<Rightarrow> pyval \<Rightarrow> pydict \<Rightarrow> span_attributes" where
  "add_metrics sp name score rest =
     sp\<lparr>sa_metrics := sa_metrics sp @ [\<lparr>mname = name, mfields = (''score'', score) # rest\<rparr>]\<rparr>"

definition add_feedback :: "span_attributes \<Rightarrow> pyval \<Rightarrow> span_attributes" where
  "add_feedback sp feedback = sp\<lparr>sa_feedback := sa_feedback sp @ [feedback]\<rparr>"

text \<open>
  A metric entry as the caller of \<^verbatim>\<open>trace_llm\<close> passes it: a dict that may lack the
  \<^verbatim>\<open>name\<close> key (a \<^verbatim>\<open>str\<close> when present) or the \<^verbatim>\<open>score\<close> key, with its other keys.
  \<^verbatim>\<open>metrics\<close> is one such dict or a list of them.
\<close>

record metric_entry =
  e_name :: "string option"
  e_score :: "pyval option"
  e_other :: pydict

datatype metrics_arg = OneMetric metric_entry | MetricList "metric_entry list"

definition KeyError :: "string \<Rightarrow> fault" where
  "KeyError k = \<lparr>etype = ''KeyError'', emessage = [CHR 39] @ k @ [CHR 39], is_exception = True\<rparr>"

definition entry_rest :: "metric_entry \<Rightarrow> pydict" where
  "entry_rest m =
     [(''reasoning'', get_or (e_other m) ''reasoning'' (PStr [])),
      (''cost'', get_or (e_other m) ''cost'' PNone),
      (''latency'', get_or (e_other m) ''latency'' PNone),
      (''metadata'', get_or (e_other m) ''metadata'' (PDict [])),
      (''config'', get_or (e_other m) ''config'' (PDict []))]"

text \<open>
  The \<^verbatim>\<open>for metric in metrics\<close> loop of \<^verbatim>\<open>trace_llm\<close>. It stands inside the \<^verbatim>\<open>try\<close>:
  the first \<^verbatim>\<open>metric["name"]\<close> or \<^verbatim>\<open>metric["score"]\<close> that raises leaves the loop.
\<close>

fun add_metrics_loop :: "span_attributes \<Rightarrow> metric_entry list \<Rightarrow> span_attributes \<times> fault option" where
  "add_metrics_loop sp [] = (sp, None)"
| "add_metrics_loop sp (m # metrics) =
     (case e_name m of
        None \<Rightarrow> (sp, Some (KeyError ''name''))
      | Some name \<Rightarrow>
          (case e_score m of
             None \<Rightarrow> (sp, Some (KeyError ''score''))
           | Some score \<Rightarrow> add_metrics_loop (add_metrics sp name score (entry_rest m)) metrics))"

definition metrics_truthy :: "metrics_arg \<Rightarrow> bool" where
  "metrics_truthy metrics =
     (case metrics of
        OneMetric m \<Rightarrow> \<not> (e_name m = None \<and> e_score m = None \<and> e_other m = [])
      | MetricList ms \<Rightarrow> ms \<noteq> [])"

text \<open>
  \<^verbatim>\<open>trace_llm\<close> up to the point where it returns the decorator: the registration of the
  attributes given at decoration time. The \<^verbatim>\<open>KeyError\<close> of a missing key is no
  \<^verbatim>\<open>ValueError\<close>, so the second handler logs it.
\<close>

definition trace_llm ::
  "string option \<Rightarrow> string list \<Rightarrow> pydict \<Rightarrow> metrics_arg \<Rightarrow> pyval \<Rightarrow> tracer \<Rightarrow> tracer" where
  "trace_llm name tags metadata metrics feedback s =
     (let s1 = (if span_attributes_dict s name = None then set_span s name SpanAttributes else s);
          s2 = (if tags \<noteq> [] then set_span s1 name (add_tags (span s1 name) tags) else s1);
          s3 = (if metadata \<noteq> [] then set_span s2 name (add_metadata (span s2 name) metadata)
                else s2);
          s4 = (if metrics_truthy metrics then
                  (let ms = (case metrics of OneMetric m \<Rightarrow> [m] | MetricList ms \<Rightarrow> ms)
                   in case add_metrics_loop (span s3 name) ms of
                        (sp, None) \<Rightarrow> set_span s3 name sp
                      | (sp, Some e) \<Rightarrow>
                          (set_span s3 name sp)
                            \<lparr>logged := logged s3 @ [''Error adding metric: '' @ emessage e]\<rparr>)
                else s3);
          s5 = (if truthy feedback then set_span s4 name (add_feedback (span s4 name) feedback)
                else s4)
      in s5\<lparr>current_llm_call_name := name\<rparr>)"

text \<open>
  What the wrappers read from their environment: their own \<^verbatim>\<open>uuid4\<close>, and the traceback
  and timestamp recorded when the decorated function raises.
\<close>

record wrapper_env =
  w_uuid4 :: string
  w_traceback :: string
  w_timestamp :: string

definition error_info :: "wrapper_env \<Rightarrow> fault \<Rightarrow> pyval" where
  "error_info W e =
     PDict [(''type'', PStr (etype e)), (''message'', PStr (emessage e)),
            (''traceback'', PStr (w_traceback W)), (''timestamp'', PStr (w_timestamp W))]"

text \<open>
  The part of the \<^verbatim>\<open>finally\<close> block that both wrappers share, from the parent test on.
  \<^verbatim>\<open>llm_component\<close> is the very dict \<^verbatim>\<open>self.llm_data\<close> holds, so each assignment to it
  shows in \<open>llm_data\<close>. With a parent, \<^verbatim>\<open>children.append(llm_component)\<close> puts that very
  dict into the children list, so the entry appended there shows the interactions
  assigned after it. What \<^verbatim>\<open>add_component\<close> appends is the component as it is at the call.
\<close>

definition publish_llm_data :: "string option \<Rightarrow> string \<Rightarrow> tracer \<Rightarrow> tracer" where
  "publish_llm_data parent_agent_id component_id s =
     (let llm_component = llm_data s;
          has_parent = (parent_agent_id \<noteq> None \<and> parent_agent_id \<noteq> Some []);
          s1 = (if has_parent
                then s\<lparr>agent_children := agent_children s @ [llm_component]\<rparr>
                else add_component s llm_component);
          s2 = end_component s1 component_id;
          llm_component' = dict_set llm_component ''interactions''
            (PList (buffer_get (component_user_interaction s2) component_id));
          s3 = s2\<lparr>llm_data := llm_component',
                  agent_children := (if has_parent then agent_children s @ [llm_component']
                                     else agent_children s2)\<rparr>
      in add_component s3 llm_component')"

text \<open>
  \<^verbatim>\<open>sync_wrapper\<close> of the decorator \<^verbatim>\<open>trace_llm(name, ...)\<close> returns, around a plain
  function \<open>func\<close>. The test \<^verbatim>\<open>(name is not None) or (name != "")\<close> is kept, as the
  negation of \<^verbatim>\<open>name is None and name == ""\<close>; no name fails it.
\<close>

definition sync_wrapper ::
  "wrapper_env \<Rightarrow> string option \<Rightarrow> callable \<Rightarrow> pyval list \<Rightarrow> pydict \<Rightarrow> tracer \<Rightarrow> outcome \<times> tracer" where
  "sync_wrapper W name func args kwargs s =
     (let s0 = s\<lparr>gt := get_or kwargs ''gt'' PNone, current_llm_call_name := name\<rparr>
      in if \<not> is_active s0 then call func args kwargs s0
         else
           let component_id = w_uuid4 W;
               parent_agent_id = current_agent_id s0;
               s1 = start_component s0 component_id;
               (r, s2) = call func args kwargs s1;
               err = (case r of Raised e \<Rightarrow> if is_exception e then Some (error_info W e) else None
                      | Returned result \<Rightarrow> None);
               c1 = (if \<not> (name = None \<and> name = Some [])
                     then dict_set (llm_data s2) ''name'' (opt_str name) else llm_data s2);
               c2 = (case err of Some info \<Rightarrow> dict_set c1 ''error'' info | None \<Rightarrow> c1)
           in (r, publish_llm_data parent_agent_id component_id (s2\<lparr>llm_data := c2\<rparr>)))"

text \<open>
  \<^verbatim>\<open>llm_component["data"]["gt"] = self.gt\<close>: a \<^verbatim>\<open>KeyError\<close> when the component has no
  \<^verbatim>\<open>data\<close> key, a \<^verbatim>\<open>TypeError\<close> when \<^verbatim>\<open>data\<close> is not a dict (the class name of an
  arbitrary object is not known to the model and shows as \<^verbatim>\<open>object\<close>).
\<close>

fun item_assignment_error :: "pyval \<Rightarrow> string" where
  "item_assignment_error (PList xs) = ''list indices must be integers or slices, not str''"
| "item_assignment_error PNone = [CHR 39] @ ''NoneType'' @ [CHR 39] @ '' object does not support item assignment''"
| "item_assignment_error (PBool b) = [CHR 39] @ ''bool'' @ [CHR 39] @ '' object does not support item assignment''"
| "item_assignment_error (PInt i) = [CHR 39] @ ''int'' @ [CHR 39] @ '' object does not support item assignment''"
| "item_assignment_error (PFloat r) = [CHR 39] @ ''float'' @ [CHR 39] @ '' object does not support item assignment''"
| "item_assignment_error (PStr x) = [CHR 39] @ ''str'' @ [CHR 39] @ '' object does not support item assignment''"
| "item_assignment_error (PCoro n) = [CHR 39] @ ''coroutine'' @ [CHR 39] @ '' object does not support item assignment''"
| "item_assignment_error v = [CHR 39] @ ''object'' @ [CHR 39] @ '' object does not support item assignment''"

definition set_data_gt :: "pydict \<Rightarrow> pyval \<Rightarrow> fault + pydict" where
  "set_data_gt llm_component g =
     (case dict_get llm_component ''data'' of
        None \<Rightarrow> Inl (KeyError ''data'')
      | Some (PDict d) \<Rightarrow> Inr (dict_set llm_component ''data'' (PDict (dict_set d ''gt'' g)))
      | Some v \<Rightarrow> Inl \<lparr>etype = ''TypeError'', emessage = item_assignment_error v,
                       is_exception = True\<rparr>)"

text \<open>
  \<^verbatim>\<open>async_wrapper\<close>, awaited to completion, around a coroutine function. Its \<^verbatim>\<open>finally\<close>
  block also stores the ground truth in the component; an exception raised there ends
  the block and replaces the outcome of the call.
\<close>

definition async_wrapper ::
  "wrapper_env \<Rightarrow> string option \<Rightarrow> callable \<Rightarrow> pyval list \<Rightarrow> pydict \<Rightarrow> tracer \<Rightarrow> outcome \<times> tracer" where
  "async_wrapper W name func args kwargs s =
     (let s0 = s\<lparr>gt := get_or kwargs ''gt'' PNone, current_llm_call_name := name\<rparr>
      in if \<not> is_active s0 then await_call func args kwargs s0
         else
           let component_id = w_uuid4 W;
               parent_agent_id = current_agent_id s0;
               s1 = start_component s0 component_id;
               (r, s2) = await_call func args kwargs s1;
               err = (case r of Raised e \<Rightarrow> if is_exception e then Some (error_info W e) else None
                      | Returned result \<Rightarrow> None);
               c1 = (if \<not> (name = None \<and> name = Some [])
                     then dict_set (llm_data s2) ''name'' (opt_str name) else llm_data s2)
           in case (if truthy (gt s2) then set_data_gt c1 (gt s2) else Inr c1) of
                Inl raised \<Rightarrow> (Raised raised, s2\<lparr>llm_data := c1\<rparr>)
              | Inr c1' \<Rightarrow>
                  let c2 = (case err of Some info \<Rightarrow> dict_set c1' ''error'' info | None \<Rightarrow> c1')
                  in (r, publish_llm_data parent_agent_id component_id (s2\<lparr>llm_data := c2\<rparr>)))"

section \<open>Patch registry\<close>

text \<open>
  The objects whose methods are patched live outside the tracer: \<open>attrs\<close> gives the
  callable bound to a method name of a target, \<open>setattr_error\<close> the message of the
  exception \<^verbatim>\<open>setattr\<close> raises on a target that refuses the assignment, and \<open>printed\<close>
  what \<^verbatim>\<open>print\<close> wrote.
\<close>

record world =
  attrs :: "nat \<times> string \<rightharpoonup> nat"
  setattr_error :: "nat \<times> string \<rightharpoonup> string"
  printed :: "string list"

definition restore :: "world \<Rightarrow> nat \<times> string \<times> nat \<Rightarrow> world" where
  "restore w p =
     (case p of (obj, method_name, original_method) \<Rightarrow>
        (case setattr_error w (obj, method_name) of
           None \<Rightarrow> w\<lparr>attrs := (attrs w)((obj, method_name) \<mapsto> original_method)\<rparr>
         | Some msg \<Rightarrow>
             w\<lparr>printed := printed w @ [''Error unpatching '' @ method_name @ '': '' @ msg]\<rparr>))"

fun restore_all :: "world \<Rightarrow> (nat \<times> string \<times> nat) list \<Rightarrow> world" where
  "restore_all w [] = w"
| "restore_all w (p # ps) = restore_all (restore w p) ps"

definition unpatch_llm_calls :: "tracer \<Rightarrow> world \<Rightarrow> tracer \<times> world" where
  "unpatch_llm_calls s w = (s\<lparr>patches := []\<rparr>, restore_all w (patches s))"

section \<open>Publication\<close>

text \<open>
  \<open>routes_one before after c\<close>: between the two states exactly the component \<open>c\<close> was
  published, to the children of the current agent when there is one and to the sink
  otherwise, and nothing else reached either list.
\<close>

definition routes_one :: "tracer \<Rightarrow> tracer \<Rightarrow> pydict \<Rightarrow> bool" where
  "routes_one before after c =
     (case current_agent_id before of
        None \<Rightarrow> components after = components before @ [c]
                \<and> agent_children after = agent_children before
      | Some parent \<Rightarrow> agent_children after = agent_children before @ [c]
                \<and> components after = components before)"

text \<open>The number of publications so far, to either list.\<close>

definition published :: "tracer \<Rightarrow> nat" where
  "published s = length (components s) + length (agent_children s)"

section \<open>A tracer, collaborators and callables to run the model on\<close>

text \<open>
  The tracer as \<^verbatim>\<open>__init__\<close> leaves it (with a one-model cost table), and the same
  tracer once started with LLM instrumentation switched on.
\<close>

definition init_tracer :: tracer where
  "init_tracer =
     \<lparr>is_active = False, auto_instrument_llm = False, auto_instrument_network = False,
      auto_instrument_user_interaction = False, patches = [],
      model_costs = [(''model-x'', [(''input_cost_per_token'', 1 / 100),
                                    (''output_cost_per_token'', 2 / 100)])],
      component_network_calls = Map.empty, component_user_interaction = Map.empty,
      current_component_id = None, current_llm_call_name = None,
      total_tokens = 0, total_cost = 0, llm_data = [],
      span_attributes_dict = Map.empty, visited_metrics = [], gt = PNone,
      current_agent_id = None, agent_children = [], components = [], logged = []\<rparr>"

definition live_tracer :: tracer where
  "live_tracer = init_tracer\<lparr>is_active := True, auto_instrument_llm := True\<rparr>"

definition fake_collaborators :: collaborators where
  "fake_collaborators =
     \<lparr>extract_model_name = (\<lambda>args kwargs result. ''model-x''),
      extract_token_usage = (\<lambda>result.
        [(''prompt_tokens'', 10), (''completion_tokens'', 5), (''total_tokens'', 15)]),
      calculate_llm_cost = (\<lambda>usage model table.
        [(''input_cost'', 1 / 10), (''output_cost'', 1 / 10), (''total_cost'', 2 / 10)]),
      extract_parameters = (\<lambda>kwargs. kwargs),
      extract_input_data = (\<lambda>args kwargs result. PDict [(''args'', PList args)]),
      extract_llm_output = (\<lambda>result. result),
      generate_unique_hash_simple = (\<lambda>f. ''hash-'' @ fname f)\<rparr>"

definition quiet_env :: env where
  "quiet_env = \<lparr>now_start = ''t0'', now_end = ''t1'', rss_start = 100, rss_end = 164,
                 uuid4 = ''id-1'', loop_running = False\<rparr>"

definition loop_env :: env where
  "loop_env = quiet_env\<lparr>loop_running := True\<rparr>"

definition completion :: callable where
  "completion =
     \<lparr>fname = ''completion'', is_coroutine_function = False,
      body = (\<lambda>args kwargs s. (Returned (PStr ''hello''), s))\<rparr>"

definition acompletion :: callable where
  "acompletion = completion\<lparr>fname := ''acompletion'', is_coroutine_function := True\<rparr>"

definition ValueError :: fault where
  "ValueError = \<lparr>etype = ''ValueError'', emessage = ''bad request'', is_exception = True\<rparr>"

definition KeyboardInterrupt :: fault where
  "KeyboardInterrupt = \<lparr>etype = ''KeyboardInterrupt'', emessage = [], is_exception = False\<rparr>"

definition bad_request :: callable where
  "bad_request =
     \<lparr>fname = ''bad_request'', is_coroutine_function = False,
      body = (\<lambda>args kwargs s. (Raised ValueError, s))\<rparr>"

definition abad_request :: callable where
  "abad_request = bad_request\<lparr>fname := ''abad_request'', is_coroutine_function := True\<rparr>"

definition interrupted :: callable where
  "interrupted =
     \<lparr>fname = ''interrupted'', is_coroutine_function = False,
      body = (\<lambda>args kwargs s. (Raised KeyboardInterrupt, s))\<rparr>"

definition CancelledError :: fault where
  "CancelledError = \<lparr>etype = ''CancelledError'', emessage = [], is_exception = False\<rparr>"

definition cancelled :: callable where
  "cancelled =
     \<lparr>fname = ''cancelled'', is_coroutine_function = True,
      body = (\<lambda>args kwargs s. (Raised CancelledError, s))\<rparr>"

text \<open>
  A valid metric entry of the given name, the arguments of a build under a given span
  name, and the metric names of a built component.
\<close>

definition scored :: "string \<Rightarrow> metric_entry" where
  "scored name = \<lparr>e_name = Some name, e_score = Some (PInt 1), e_other = []\<rparr>"

definition llm_args :: "string \<Rightarrow> component_args" where
  "llm_args name =
     \<lparr>a_component_id = ''id-'' @ name, a_hash_id = ''hash'', a_name = name,
      a_llm_type = ''model-x'', a_version = PNone, a_memory_used = 0, a_start_time = ''t0'',
      a_input_data = PNone, a_output_data = None, a_cost = [], a_usage = [],
      a_error = PNone, a_parameters = []\<rparr>"

fun name_of_metric :: "pyval \<Rightarrow> string" where
  "name_of_metric (PDict d) = (case dict_get d ''name'' of Some (PStr name) \<Rightarrow> name | _ \<Rightarrow> [])"
| "name_of_metric v = []"

definition metric_names :: "pydict \<Rightarrow> string list" where
  "metric_names component =
     (case dict_get component ''metrics'' of
        Some (PList metrics) \<Rightarrow> map name_of_metric metrics
      | _ \<Rightarrow> [])"

text \<open>
  A tracer with three recorded patches, and a world in which the second target refuses
  \<^verbatim>\<open>setattr\<close>.
\<close>

definition patched_tracer :: tracer where
  "patched_tracer =
     live_tracer\<lparr>patches := [(1, ''create'', 101), (2, ''generate_content'', 102),
                             (3, ''completion'', 103)]\<rparr>"

definition patched_world :: world where
  "patched_world =
     \<lparr>attrs = [(1, ''create'') \<mapsto> 11, (2, ''generate_content'') \<mapsto> 12, (3, ''completion'') \<mapsto> 13],
      setattr_error = [(2, ''generate_content'') \<mapsto> ''read-only''],
      printed = []\<rparr>"

text \<open>
  A metric entry without the \<^verbatim>\<open>name\<close> key; decorated functions that make one patched
  call, the last of which raises after that call has returned; and what the wrappers read
  from their environment.
\<close>

definition unnamed :: metric_entry where
  "unnamed = \<lparr>e_name = None, e_score = Some (PInt 1), e_other = []\<rparr>"

definition decorated :: callable where
  "decorated =
     \<lparr>fname = ''decorated'', is_coroutine_function = False,
      body = (\<lambda>args kwargs s.
        trace_llm_call_sync fake_collaborators quiet_env completion args kwargs s)\<rparr>"

definition adecorated :: callable where
  "adecorated =
     \<lparr>fname = ''adecorated'', is_coroutine_function = True,
      body = (\<lambda>args kwargs s.
        trace_llm_call fake_collaborators quiet_env acompletion args kwargs s)\<rparr>"

definition decorated_then_fails :: callable where
  "decorated_then_fails =
     \<lparr>fname = ''decorated_then_fails'', is_coroutine_function = False,
      body = (\<lambda>args kwargs s.
        (Raised ValueError,
         snd (trace_llm_call_sync fake_collaborators quiet_env completion args kwargs s)))\<rparr>"

definition facade_env :: wrapper_env where
  "facade_env = \<lparr>w_uuid4 = ''id-0'', w_traceback = ''Traceback'', w_timestamp = ''t2''\<rparr>"

section \<open>What the builder and the buffer functions leave alone\<close>

lemmas example_defs = init_tracer_def live_tracer_def fake_collaborators_def quiet_env_def
  loop_env_def completion_def acompletion_def ValueError_def KeyboardInterrupt_def
  bad_request_def abad_request_def interrupted_def CancelledError_def cancelled_def

lemmas adapter_defs = trace_llm_call_def trace_llm_call_sync_def await_call_def call_def
  asyncio_run_def start_component_def end_component_def add_component_def
  create_llm_component_def llm_call_name_def parameters_to_display_def
  run_manager_metadata_def buffer_get_def get_or_def dict_get_def opt_str_def
  error_component_def MAX_PARAMETERS_TO_DISPLAY_def SpanAttributes_def

lemma create_llm_component_frame:
  "components (snd (create_llm_component E a s)) = components s"
  "agent_children (snd (create_llm_component E a s)) = agent_children s"
  "current_agent_id (snd (create_llm_component E a s)) = current_agent_id s"
  "component_network_calls (snd (create_llm_component E a s)) = component_network_calls s"
  "component_user_interaction (snd (create_llm_component E a s)) = component_user_interaction s"
  "current_component_id (snd (create_llm_component E a s)) = current_component_id s"
  by (simp_all add: create_llm_component_def Let_def split: prod.splits option.splits)

lemma create_llm_component_fields:
  "dict_get (fst (create_llm_component E a s)) ''error'' = Some (a_error a)"
  "dict_get (fst (create_llm_component E a s)) ''id'' = Some (PStr (a_component_id a))"
  "dict_get (fst (create_llm_component E a s)) ''extra_info'' = Some (PDict (a_parameters a))"
  by (simp_all add: create_llm_component_def Let_def dict_get_def split: prod.splits option.splits)

lemma end_component_frame:
  "components (end_component s c) = components s"
  "agent_children (end_component s c) = agent_children s"
  "current_agent_id (end_component s c) = current_agent_id s"
  by (simp_all add: end_component_def)

lemma routes_one_add_component:
  "components s = components s0 \<Longrightarrow> agent_children s = agent_children s0 \<Longrightarrow>
   current_agent_id s = current_agent_id s0 \<Longrightarrow> routes_one s0 (add_component s c) c"
  by (simp add: routes_one_def add_component_def split: option.splits)

section \<open>Failing calls\<close>




section \<open>One component per invocation\<close>

text \<open>
  What the two success paths publish, for every tracer, callable and collaborator: the
  asynchronous adapter nothing, the synchronous adapter the one component it built.
\<close>

lemma async_success_publishes_nothing:
  assumes "is_active s" and "auto_instrument_llm s"
    and "body f args kwargs (start_component s (uuid4 E)) = (Returned result, s2)"
  shows "fst (trace_llm_call C E f args kwargs s) = Returned result
       \<and> components (snd (trace_llm_call C E f args kwargs s)) = components s2
       \<and> agent_children (snd (trace_llm_call C E f args kwargs s)) = agent_children s2"
  using assms
  by (simp add: trace_llm_call_def await_call_def Let_def split_beta
      create_llm_component_frame end_component_frame)

lemma sync_success_publishes_one:
  assumes "is_active s" and "auto_instrument_llm s" and "\<not> is_coroutine_function f"
    and "body f args kwargs (start_component s (uuid4 E)) = (Returned result, s2)"
  shows "\<exists>c. fst (trace_llm_call_sync C E f args kwargs s) = Returned result
       \<and> routes_one s2 (snd (trace_llm_call_sync C E f args kwargs s)) c
       \<and> dict_get c ''id'' = Some (PStr (uuid4 E))"
proof -
  let ?a = "\<lparr>a_component_id = uuid4 E, a_hash_id = generate_unique_hash_simple C f,
      a_name = llm_call_name (end_component s2 (uuid4 E)) f,
      a_llm_type = extract_model_name C args kwargs result, a_version = PNone,
      a_memory_used = max 0 (rss_end E - rss_start E),
      a_start_time = now_start E, a_input_data = extract_input_data C args kwargs result,
      a_output_data = Some (extract_llm_output C result),
      a_cost = calculate_llm_cost C (extract_token_usage C result)
                 (extract_model_name C args kwargs result) (model_costs s2),
      a_usage = extract_token_usage C result, a_error = PNone,
      a_parameters = extract_parameters C kwargs\<rparr>"
  let ?b = "create_llm_component E ?a (end_component s2 (uuid4 E))"
  have run: "trace_llm_call_sync C E f args kwargs s
               = (Returned result, add_component ((snd ?b)\<lparr>llm_data := fst ?b\<rparr>) (fst ?b))"
    using assms by (simp add: trace_llm_call_sync_def call_def Let_def split_beta)
  have "routes_one s2 (add_component ((snd ?b)\<lparr>llm_data := fst ?b\<rparr>) (fst ?b)) (fst ?b)"
    by (rule routes_one_add_component) (simp_all add: create_llm_component_frame end_component_frame)
  moreover have "dict_get (fst ?b) ''id'' = Some (PStr (uuid4 E))"
    by (simp add: create_llm_component_fields)
  ultimately show ?thesis
    using run by auto
qed

text \<open>
  C1, at its failing input. With the tracer active and LLM instrumentation on, a
  successful call through the asynchronous adapter \<^verbatim>\<open>trace_llm_call\<close> returns the result
  and builds the component (it is in \<open>llm_data\<close>, under the fresh id), but publishes
  nothing: neither the sink nor the children buffer grows. The same call through
  \<^verbatim>\<open>trace_llm_call_sync\<close> publishes one component.
\<close>

theorem async_success_not_routed:
  "fst (trace_llm_call fake_collaborators quiet_env acompletion [] [] live_tracer)
     = Returned (PStr ''hello'')
   \<and> published (snd (trace_llm_call fake_collaborators quiet_env acompletion [] [] live_tracer)) = 0
   \<and> dict_get (llm_data (snd (trace_llm_call fake_collaborators quiet_env acompletion [] [] live_tracer)))
        ''id'' = Some (PStr ''id-1'')
   \<and> published (snd (trace_llm_call_sync fake_collaborators quiet_env completion [] [] live_tracer)) = 1"
  by (simp add: adapter_defs example_defs published_def Let_def)

section \<open>Disabled tracer\<close>

text \<open>
  C5, as amended. When the tracer is inactive or LLM auto-instrumentation is disabled,
  the adapters add nothing to what the wrapped callable does itself: the outcome and the
  whole tracer state (sink, children, counters, buffers) are those the callable's own
  run leaves, so a callable that leaves the tracer alone gets it back unchanged. The
  asynchronous adapter awaits the callable. The synchronous adapter calls it, which runs
  a plain function and hands back the un-awaited coroutine object of a coroutine
  function; except that on an inactive tracer it runs a coroutine function with
  \<^verbatim>\<open>asyncio.run\<close>, returning the awaited result outside an event loop and raising
  \<^verbatim>\<open>RuntimeError\<close>, without running the callable, inside one.
\<close>

theorem disabled_tracer_passes_through:
  assumes off: "\<not> (is_active s \<and> auto_instrument_llm s)"
  shows "trace_llm_call C E f args kwargs s = body f args kwargs s
       \<and> trace_llm_call_sync C E f args kwargs s =
           (if is_coroutine_function f
            then (if is_active s then (Returned (PCoro (fname f)), s)
                  else if loop_running E then (Raised asyncio_run_error, s)
                  else body f args kwargs s)
            else body f args kwargs s)
       \<and> (snd (body f args kwargs s) = s \<longrightarrow>
            snd (trace_llm_call C E f args kwargs s) = s
          \<and> snd (trace_llm_call_sync C E f args kwargs s) = s)"
  using off
  by (auto simp: trace_llm_call_def trace_llm_call_sync_def await_call_def call_def asyncio_run_def)

theorem disabled_tracer_passes_through_witness:
  "trace_llm_call fake_collaborators quiet_env acompletion [] [] init_tracer
     = (Returned (PStr ''hello''), init_tracer)
   \<and> trace_llm_call_sync fake_collaborators quiet_env completion [] [] init_tracer
     = (Returned (PStr ''hello''), init_tracer)
   \<and> published init_tracer = 0 \<and> total_tokens init_tracer = 0 \<and> total_cost init_tracer = 0"
proof -
  have off: "\<not> (is_active init_tracer \<and> auto_instrument_llm init_tracer)"
    by (simp add: init_tracer_def)
  have b: "body acompletion [] [] init_tracer = (Returned (PStr ''hello''), init_tracer)"
    "body completion [] [] init_tracer = (Returned (PStr ''hello''), init_tracer)"
    "\<not> is_coroutine_function completion"
    by (simp_all add: acompletion_def completion_def)
  have c: "published init_tracer = 0 \<and> total_tokens init_tracer = 0 \<and> total_cost init_tracer = 0"
    by (simp add: published_def init_tracer_def)
  from disabled_tracer_passes_through [OF off, of fake_collaborators quiet_env acompletion "[]" "[]"]
    disabled_tracer_passes_through [OF off, of fake_collaborators quiet_env completion "[]" "[]"]
  show ?thesis using b c by simp
qed

text \<open>
  The claim as stated fails: on an inactive tracer, inside a running event loop, the
  synchronous adapter given a coroutine function raises \<^verbatim>\<open>RuntimeError\<close> where the
  wrapped call would have produced its result.
\<close>

theorem inactive_sync_refuses_inside_loop:
  "\<not> is_active init_tracer
   \<and> fst (body acompletion [] [] init_tracer) = Returned (PStr ''hello'')
   \<and> trace_llm_call_sync fake_collaborators loop_env acompletion [] [] init_tracer
       = (Raised asyncio_run_error, init_tracer)"
  by (simp add: adapter_defs example_defs)

text \<open>
  C10. On an inactive tracer the synchronous adapter, given a coroutine function, does
  not hand the coroutine object to the caller, as the plain call \<open>call\<close> does: it runs
  the coroutine to completion with \<^verbatim>\<open>asyncio.run\<close> and returns the awaited outcome, and
  it fails with \<^verbatim>\<open>RuntimeError\<close>, the callable not run, when an event loop is already
  running.
\<close>

theorem inactive_sync_runs_coroutine:
  assumes "\<not> is_active s" and "is_coroutine_function f"
  shows "trace_llm_call_sync C E f args kwargs s =
           (if loop_running E then (Raised asyncio_run_error, s) else body f args kwargs s)
       \<and> call f args kwargs s = (Returned (PCoro (fname f)), s)"
  using assms by (simp add: trace_llm_call_sync_def asyncio_run_def call_def)

theorem inactive_sync_runs_coroutine_witness:
  "trace_llm_call_sync fake_collaborators quiet_env acompletion [] [] init_tracer
     = (Returned (PStr ''hello''), init_tracer)
   \<and> trace_llm_call_sync fake_collaborators loop_env acompletion [] [] init_tracer
     = (Raised asyncio_run_error, init_tracer)
   \<and> call acompletion [] [] init_tracer = (Returned (PCoro ''acompletion''), init_tracer)"
proof -
  have pre: "\<not> is_active init_tracer" "is_coroutine_function acompletion"
    by (simp_all add: example_defs)
  from inactive_sync_runs_coroutine [OF pre, of fake_collaborators quiet_env "[]" "[]"]
    inactive_sync_runs_coroutine [OF pre, of fake_collaborators loop_env "[]" "[]"]
  show ?thesis by (simp add: example_defs)
qed

section \<open>Component buffers\<close>

text \<open>
  C7, as amended. \<^verbatim>\<open>start_component\<close> creates an empty network-call buffer for the id
  (and no user-interaction buffer) and makes the id current; \<^verbatim>\<open>end_component\<close> only
  clears the current id; the builder copies the buffers' contents into the component
  (network calls when network instrumentation is on, interactions when user-interaction
  instrumentation is on, empty lists otherwise) and leaves both buffer tables as they
  are: no entry is ever discarded.
\<close>

theorem buffer_outlives_component:
  "component_network_calls (start_component s component_id) component_id = Some []
   \<and> component_user_interaction (start_component s component_id) = component_user_interaction s
   \<and> current_component_id (start_component s component_id) = Some component_id
   \<and> end_component s' component_id = s'\<lparr>current_component_id := None\<rparr>
   \<and> component_network_calls (snd (create_llm_component E a s')) = component_network_calls s'
   \<and> component_user_interaction (snd (create_llm_component E a s')) = component_user_interaction s'
   \<and> dict_get (fst (create_llm_component E a s')) ''network_calls'' =
       Some (PList (if auto_instrument_network s'
                    then buffer_get (component_network_calls s') (a_component_id a) else []))
   \<and> dict_get (fst (create_llm_component E a s')) ''interactions'' =
       Some (PList (if auto_instrument_user_interaction s'
                    then buffer_get (component_user_interaction s') (a_component_id a) else []))"
  by (simp add: start_component_def end_component_def create_llm_component_frame)
     (simp add: create_llm_component_def Let_def dict_get_def split: prod.splits option.splits)

text \<open>
  The claim as stated fails: after a complete traced call (started, ended, built and
  published) the network-call buffer of its id is still in the tracer's state.
\<close>

theorem buffer_left_after_publication:
  "published (snd (trace_llm_call_sync fake_collaborators quiet_env completion [] [] live_tracer)) = 1
   \<and> current_component_id (snd (trace_llm_call_sync fake_collaborators quiet_env completion [] [] live_tracer)) = None
   \<and> component_network_calls (snd (trace_llm_call_sync fake_collaborators quiet_env completion [] [] live_tracer)) ''id-1'' = Some []"
  by (simp add: adapter_defs example_defs published_def Let_def)

section \<open>Display projection of the parameters\<close>

lemma set_dict_set: "set (dict_set d k v) \<subseteq> insert (k, v) (set d)"
  by (induction d) (auto split: if_splits)

lemma set_dict_update: "set (dict_update d e) \<subseteq> set d \<union> set e"
proof (induction e arbitrary: d)
  case Nil
  then show ?case by simp
next
  case (Cons kv e)
  obtain k v where kv: "kv = (k, v)" by (cases kv)
  have "set (dict_update (dict_set d k v) e) \<subseteq> set (dict_set d k v) \<union> set e"
    by (rule Cons.IH)
  with set_dict_set [of d k v] show ?case
    unfolding kv by auto
qed

lemma set_add_scalars:
  "set (add_scalars shown p) \<subseteq> set shown \<union> {kv \<in> set p. is_scalar (snd kv)}"
proof (induction p arbitrary: shown)
  case Nil
  then show ?case by simp
next
  case (Cons kv p)
  obtain k v where kv: "kv = (k, v)" by (cases kv)
  show ?case
  proof (cases "is_scalar v")
    case True
    have "set (add_scalars (dict_set shown k v) p)
            \<subseteq> set (dict_set shown k v) \<union> {kv \<in> set p. is_scalar (snd kv)}"
      by (rule Cons.IH)
    with set_dict_set [of shown k v] True show ?thesis
      unfolding kv by auto
  next
    case False
    with Cons.IH [of shown] show ?thesis
      unfolding kv by auto
  qed
qed

lemma dict_set_fresh: "k \<notin> fst ` set d \<Longrightarrow> dict_set d k v = d @ [(k, v)]"
  by (induction d) (auto split: if_splits)

lemma add_scalars_fresh:
  "distinct (map fst p) \<Longrightarrow> fst ` set shown \<inter> fst ` set p = {} \<Longrightarrow>
   add_scalars shown p = shown @ filter (\<lambda>kv. is_scalar (snd kv)) p"
proof (induction p arbitrary: shown)
  case Nil
  then show ?case by simp
next
  case (Cons kv p)
  obtain k v where kv: "kv = (k, v)" by (cases kv)
  from Cons.prems have fresh: "k \<notin> fst ` set shown" and dp: "distinct (map fst p)"
    and kp: "k \<notin> fst ` set p" and disj: "fst ` set shown \<inter> fst ` set p = {}"
    unfolding kv by auto
  show ?case
  proof (cases "is_scalar v")
    case True
    have "fst ` set (shown @ [(k, v)]) \<inter> fst ` set p = {}"
      using disj kp by auto
    with Cons.IH [OF dp, of "shown @ [(k, v)]"] True fresh show ?thesis
      unfolding kv by (simp add: dict_set_fresh)
  next
    case False
    with Cons.IH [OF dp disj] show ?thesis
      unfolding kv by simp
  qed
qed

lemma dict_set_present:
  "distinct (map fst d) \<Longrightarrow> k \<in> fst ` set d \<Longrightarrow>
   dict_set d k v = map (\<lambda>(k', v'). (k', if k' = k then v else v')) d"
proof (induction d)
  case Nil
  then show ?case by simp
next
  case (Cons kv d)
  obtain k0 v0 where kv: "kv = (k0, v0)" by (cases kv)
  show ?case
  proof (cases "k0 = k")
    case True
    with Cons.prems have "k \<notin> fst ` set d" unfolding kv by auto
    then have "map (\<lambda>(k', v'). (k', if k' = k then v else v')) d = d"
      by (induction d) auto
    with True show ?thesis unfolding kv by simp
  next
    case False
    with Cons show ?thesis unfolding kv by auto
  qed
qed

lemma dict_set_keys:
  "distinct (map fst d) \<Longrightarrow> k \<in> fst ` set d \<Longrightarrow> map fst (dict_set d k v) = map fst d"
  by (simp add: dict_set_present split_beta cong: map_cong)

lemma dict_update_fresh:
  "distinct (map fst (d @ e)) \<Longrightarrow> dict_update d e = d @ e"
proof (induction e arbitrary: d)
  case Nil
  then show ?case by simp
next
  case (Cons kv e)
  obtain k v where kv: "kv = (k, v)" by (cases kv)
  from Cons.prems have fresh: "k \<notin> fst ` set d" and "distinct (map fst ((d @ [(k, v)]) @ e))"
    unfolding kv by auto
  with Cons.IH [of "d @ [(k, v)]"] show ?case
    unfolding kv by (simp add: dict_set_fresh)
qed

lemma add_scalars_shown:
  "distinct (map fst p) \<Longrightarrow> distinct (map fst shown) \<Longrightarrow>
   add_scalars shown p =
     map (\<lambda>(k, v). (k, case map_of (filter (\<lambda>kv. is_scalar (snd kv)) p) k of
                          Some v' \<Rightarrow> v' | None \<Rightarrow> v)) shown
     @ filter (\<lambda>(k, v). is_scalar v \<and> k \<notin> fst ` set shown) p"
proof (induction p arbitrary: shown)
  case Nil
  then show ?case by (simp add: split_beta)
next
  case (Cons kv p)
  obtain k v where kv: "kv = (k, v)" by (cases kv)
  let ?sc = "\<lambda>q. filter (\<lambda>kv. is_scalar (snd kv)) q"
  from Cons.prems have dp: "distinct (map fst p)" and kp: "k \<notin> fst ` set p"
    unfolding kv by auto
  from kp have none: "map_of (?sc p) k = None"
    by (auto simp: map_of_eq_None_iff)
  show ?case
  proof (cases "is_scalar v")
    case False
    with Cons.IH [OF dp Cons.prems(2)] show ?thesis
      unfolding kv by simp
  next
    case True
    show ?thesis
    proof (cases "k \<in> fst ` set shown")
      case present: True
      let ?shown' = "dict_set shown k v"
      have keys: "map fst ?shown' = map fst shown"
        using Cons.prems(2) present by (rule dict_set_keys)
      then have d': "distinct (map fst ?shown')" and ks: "fst ` set ?shown' = fst ` set shown"
        using Cons.prems(2) by (simp_all, metis list.set_map)
      have "add_scalars ?shown' p =
              map (\<lambda>(k, v). (k, case map_of (?sc p) k of Some v' \<Rightarrow> v' | None \<Rightarrow> v)) ?shown'
              @ filter (\<lambda>(k, v). is_scalar v \<and> k \<notin> fst ` set ?shown') p"
        by (rule Cons.IH [OF dp d'])
      also have "map (\<lambda>(k, v). (k, case map_of (?sc p) k of Some v' \<Rightarrow> v' | None \<Rightarrow> v)) ?shown'
              = map (\<lambda>(k', v'). (k', case map_of (?sc ((k, v) # p)) k' of Some v'' \<Rightarrow> v'' | None \<Rightarrow> v')) shown"
        using True none
        by (simp add: dict_set_present [OF Cons.prems(2) present] split_beta)
      finally show ?thesis
        using True present unfolding kv by (simp add: ks)
    next
      case absent: False
      let ?shown' = "shown @ [(k, v)]"
      have d': "distinct (map fst ?shown')"
        using Cons.prems(2) absent by (simp add: image_iff)
      have "add_scalars ?shown' p =
              map (\<lambda>(k, v). (k, case map_of (?sc p) k of Some v' \<Rightarrow> v' | None \<Rightarrow> v)) ?shown'
              @ filter (\<lambda>(k, v). is_scalar v \<and> k \<notin> fst ` set ?shown') p"
        by (rule Cons.IH [OF dp d'])
      moreover have "filter (\<lambda>(k', v'). is_scalar v' \<and> k' \<notin> fst ` set ?shown') p
              = filter (\<lambda>(k', v'). is_scalar v' \<and> k' \<notin> fst ` set shown) p"
        using kp by (intro filter_cong) (auto simp: image_iff)
      moreover have "map (\<lambda>(k', v'). (k', case map_of (?sc p) k' of Some v'' \<Rightarrow> v'' | None \<Rightarrow> v')) shown
              = map (\<lambda>(k', v'). (k', case map_of (?sc ((k, v) # p)) k' of Some v'' \<Rightarrow> v'' | None \<Rightarrow> v')) shown"
        using absent True by (intro map_cong) (auto simp: image_iff)
      ultimately show ?thesis
        using True absent none unfolding kv by (simp add: dict_set_fresh)
    qed
  qed
qed

lemma create_llm_component_info:
  "dict_get (fst (create_llm_component E a s)) ''info'' =
     Some (PDict (dict_update
       [(''model'', PStr (a_llm_type a)),
        (''version'', a_version a),
        (''memory_used'', PInt (a_memory_used a)),
        (''cost'', PDict (map (\<lambda>(k, v). (k, PFloat v)) (a_cost a))),
        (''tokens'', PDict (map (\<lambda>(k, v). (k, PInt v)) (a_usage a))),
        (''tags'', PList (map PStr (case span_attributes_dict s (Some (a_name a)) of
                                      None \<Rightarrow> [] | Some sp \<Rightarrow> sa_tags sp)))]
       (parameters_to_display (a_parameters a))))"
  by (simp add: create_llm_component_def Let_def dict_get_def split: prod.splits)

text \<open>
  C8, as amended. The display projection holds at most 10 items; each is a scalar-valued
  parameter or an item of the metadata of a \<^verbatim>\<open>run_manager\<close> parameter. When there is no
  such metadata the projection is the first 10 scalar-valued parameters in the order of
  the parameter dict (whose keys are distinct), so structured values are dropped. When
  the parameters hold a \<^verbatim>\<open>run_manager\<close> with a metadata dict, the projection is the first
  10 items of: every metadata item, in the metadata's order and whatever its value is
  (a scalar-valued parameter of the same key replaces the value in place), followed by
  the scalar-valued parameters whose key is not a metadata key, in the parameters'
  order. The built component keeps all parameters under \<^verbatim>\<open>extra_info\<close> and merges the
  projection into \<^verbatim>\<open>info\<close>.
\<close>

theorem display_projection:
  "length (parameters_to_display p) \<le> 10
   \<and> set (parameters_to_display p)
       \<subseteq> {kv \<in> set p. is_scalar (snd kv)} \<union> set (run_manager_metadata p)
   \<and> (distinct (map fst p) \<and> run_manager_metadata p = [] \<longrightarrow>
        parameters_to_display p = take 10 (filter (\<lambda>kv. is_scalar (snd kv)) p))
   \<and> (distinct (map fst p) \<and> dict_get p ''run_manager'' = Some (PObj (Some metadata))
        \<and> distinct (map fst metadata) \<longrightarrow>
        parameters_to_display p =
          take 10
            (map (\<lambda>(k, v). (k, case map_of (filter (\<lambda>kv. is_scalar (snd kv)) p) k of
                                 Some v' \<Rightarrow> v' | None \<Rightarrow> v)) metadata
             @ filter (\<lambda>(k, v). is_scalar v \<and> k \<notin> fst ` set metadata) p))
   \<and> dict_get (fst (create_llm_component E a s)) ''extra_info'' = Some (PDict (a_parameters a))
   \<and> dict_get (fst (create_llm_component E a s)) ''info'' =
       Some (PDict (dict_update
         [(''model'', PStr (a_llm_type a)),
          (''version'', a_version a),
          (''memory_used'', PInt (a_memory_used a)),
          (''cost'', PDict (map (\<lambda>(k, v). (k, PFloat v)) (a_cost a))),
          (''tokens'', PDict (map (\<lambda>(k, v). (k, PInt v)) (a_usage a))),
          (''tags'', PList (map PStr (case span_attributes_dict s (Some (a_name a)) of
                                        None \<Rightarrow> [] | Some sp \<Rightarrow> sa_tags sp)))]
         (parameters_to_display (a_parameters a))))"
proof -
  have cap: "length (parameters_to_display p) \<le> 10"
    by (simp add: parameters_to_display_def MAX_PARAMETERS_TO_DISPLAY_def)
  have "set (parameters_to_display p) \<subseteq> set (add_scalars (run_manager_metadata p) p)"
    unfolding parameters_to_display_def by (rule set_take_subset)
  with set_add_scalars [of "run_manager_metadata p" p]
  have sub: "set (parameters_to_display p)
       \<subseteq> {kv \<in> set p. is_scalar (snd kv)} \<union> set (run_manager_metadata p)"
    by auto
  have plain: "parameters_to_display p = take 10 (filter (\<lambda>kv. is_scalar (snd kv)) p)"
    if "distinct (map fst p)" and "run_manager_metadata p = []"
    using that add_scalars_fresh [of p "[]"]
    by (simp add: parameters_to_display_def MAX_PARAMETERS_TO_DISPLAY_def)
  have meta: "parameters_to_display p =
          take 10
            (map (\<lambda>(k, v). (k, case map_of (filter (\<lambda>kv. is_scalar (snd kv)) p) k of
                                 Some v' \<Rightarrow> v' | None \<Rightarrow> v)) metadata
             @ filter (\<lambda>(k, v). is_scalar v \<and> k \<notin> fst ` set metadata) p)"
    if dp: "distinct (map fst p)" and rm: "dict_get p ''run_manager'' = Some (PObj (Some metadata))"
      and dm: "distinct (map fst metadata)"
  proof -
    have "run_manager_metadata p = metadata"
      using rm dm dict_update_fresh [of "[]" metadata] by (simp add: run_manager_metadata_def)
    with add_scalars_shown [OF dp dm] show ?thesis
      by (simp add: parameters_to_display_def MAX_PARAMETERS_TO_DISPLAY_def)
  qed
  show ?thesis
    using cap sub plain meta create_llm_component_fields(3) create_llm_component_info by blast
qed

theorem display_projection_witness:
  "parameters_to_display
     [(''temperature'', PFloat (7 / 10)), (''tools'', PList [PStr ''search'']),
      (''model'', PStr ''model-x''), (''stream'', PBool False), (''stop'', PNone)]
   = [(''temperature'', PFloat (7 / 10)), (''model'', PStr ''model-x''), (''stream'', PBool False)]
   \<and> parameters_to_display
     [(''run_manager'', PObj (Some [(''callbacks'', PList [PStr ''handler'']), (''n'', PInt 1)])),
      (''n'', PInt 2), (''tools'', PList []), (''model'', PStr ''model-x'')]
   = [(''callbacks'', PList [PStr ''handler'']), (''n'', PInt 2), (''model'', PStr ''model-x'')]"
proof -
  let ?p = "[(''temperature'', PFloat (7 / 10)), (''tools'', PList [PStr ''search'']),
      (''model'', PStr ''model-x''), (''stream'', PBool False), (''stop'', PNone)]"
  let ?md = "[(''callbacks'', PList [PStr ''handler'']), (''n'', PInt 1)]"
  let ?q = "[(''run_manager'', PObj (Some ?md)),
      (''n'', PInt 2), (''tools'', PList []), (''model'', PStr ''model-x'')]"
  have pre: "distinct (map fst ?p) \<and> run_manager_metadata ?p = []"
    by (simp add: run_manager_metadata_def dict_get_def)
  from display_projection [of ?p] pre
  have "parameters_to_display ?p = take 10 (filter (\<lambda>kv. is_scalar (snd kv)) ?p)"
    by blast
  then have a: "parameters_to_display ?p
     = [(''temperature'', PFloat (7 / 10)), (''model'', PStr ''model-x''), (''stream'', PBool False)]"
    by simp
  have pre': "distinct (map fst ?q) \<and> dict_get ?q ''run_manager'' = Some (PObj (Some ?md))
              \<and> distinct (map fst ?md)"
    by (simp add: dict_get_def)
  from display_projection [of ?q ?md] pre'
  have "parameters_to_display ?q =
          take 10
            (map (\<lambda>(k, v). (k, case map_of (filter (\<lambda>kv. is_scalar (snd kv)) ?q) k of
                                 Some v' \<Rightarrow> v' | None \<Rightarrow> v)) ?md
             @ filter (\<lambda>(k, v). is_scalar v \<and> k \<notin> fst ` set ?md) ?q)"
    by blast
  then have b: "parameters_to_display ?q
     = [(''callbacks'', PList [PStr ''handler'']), (''n'', PInt 2), (''model'', PStr ''model-x'')]"
    by simp
  from a b show ?thesis by blast
qed

text \<open>
  The claim as stated fails: the metadata of a \<^verbatim>\<open>run_manager\<close> parameter reaches the
  display projection whatever its values are, here a list.
\<close>

theorem run_manager_metadata_displayed_unfiltered:
  "parameters_to_display
     [(''run_manager'', PObj (Some [(''callbacks'', PList [PStr ''handler''])])),
      (''temperature'', PInt 1)]
   = [(''callbacks'', PList [PStr ''handler'']), (''temperature'', PInt 1)]
   \<and> \<not> is_scalar (PList [PStr ''handler''])"
  by (simp add: parameters_to_display_def run_manager_metadata_def dict_get_def
      MAX_PARAMETERS_TO_DISPLAY_def)

section \<open>Metric names\<close>

text \<open>\<open>str_nat\<close> is injective: reading the digits back gives the number.\<close>

lemma of_char_digit_char: "d < 10 \<Longrightarrow> (of_char (digit_char d) :: nat) = 48 + d"
  by (simp add: digit_char_def)

lemma nat_of_str_nat:
  "foldl (\<lambda>a c. 10 * a + (of_char c - 48)) 0 (str_nat n) = n"
proof (induction n rule: str_nat.induct)
  case (1 n)
  show ?case
  proof (cases "n < 10")
    case True
    then show ?thesis
      by (subst str_nat.simps) (simp add: of_char_digit_char)
  next
    case False
    have "n mod 10 < 10" by simp
    then have d: "(of_char (digit_char (n mod 10)) :: nat) = 48 + n mod 10"
      by (rule of_char_digit_char)
    from False 1 have "foldl (\<lambda>a c. 10 * a + (of_char c - 48)) 0 (str_nat (n div 10)) = n div 10"
      by simp
    with False d show ?thesis
      by (subst str_nat.simps) simp
  qed
qed

lemma str_nat_inj: "str_nat i = str_nat j \<Longrightarrow> i = j"
  by (metis nat_of_str_nat)

lemma suffixed_inj: "suffixed b i = suffixed b j \<Longrightarrow> i = j"
  by (auto simp: suffixed_def split: if_splits dest: str_nat_inj)

lemma startswith_append: "startswith (b @ t) b"
  by (induction b) simp_all

lemma startswith_suffixed: "startswith (suffixed b n) b"
  using startswith_append [of b "[]"] by (simp add: suffixed_def startswith_append)

lemma rename_metrics_visited:
  "snd (rename_metrics visited raw) = visited @ map mname (fst (rename_metrics visited raw))"
  by (induction raw arbitrary: visited) (simp_all add: Let_def split_beta)

lemma rename_metrics_names:
  "\<forall>m \<in> set raw. mname m = b \<Longrightarrow>
   map mname (fst (rename_metrics visited raw)) =
     map (\<lambda>k. suffixed b (length (filter (\<lambda>x. startswith x b) visited) + k)) [0..<length raw]"
proof (induction raw arbitrary: visited)
  case Nil
  then show ?case by simp
next
  case (Cons m raw)
  let ?c = "length (filter (\<lambda>x. startswith x b) visited)"
  have mb: "mname m = b" and rest: "\<forall>m \<in> set raw. mname m = b"
    using Cons.prems by simp_all
  have nm: "metric_name visited (mname m) = suffixed b ?c"
    by (simp add: metric_name_def mb)
  have cnt: "length (filter (\<lambda>x. startswith x b) (visited @ [suffixed b ?c])) = Suc ?c"
    by (simp add: startswith_suffixed)
  have "map mname (fst (rename_metrics (visited @ [suffixed b ?c]) raw)) =
          map (\<lambda>k. suffixed b (Suc ?c + k)) [0..<length raw]"
    using Cons.IH [OF rest, of "visited @ [suffixed b ?c]"] cnt by simp
  then have "map mname (fst (rename_metrics visited (m # raw))) =
          suffixed b ?c # map (\<lambda>k. suffixed b (?c + Suc k)) [0..<length raw]"
    by (simp add: nm Let_def split_beta)
  then show ?case
    by (simp add: map_upt_Suc del: upt_Suc)
qed

lemma create_llm_component_metrics:
  "span_attributes_dict s (Some (a_name a)) = Some sp \<Longrightarrow>
   dict_get (fst (create_llm_component E a s)) ''metrics'' =
     Some (PList (map metric_dict (fst (rename_metrics (visited_metrics s) (sa_metrics sp)))))
   \<and> visited_metrics (snd (create_llm_component E a s)) =
     snd (rename_metrics (visited_metrics s) (sa_metrics sp))"
  by (simp add: create_llm_component_def Let_def dict_get_def split: prod.splits)

text \<open>
  What the loop gives a span whose metrics all carry one name \<open>b\<close>. The counter of a name
  counts the names visited so far by the whole tracer (\<open>visited_metrics\<close> is read at the
  start of each build and carried on after it) that start with it. So when \<open>c\<close> earlier
  visited names start with \<open>b\<close>, the component's metrics are named \<open>b_c\<close>, \<open>b_(c+1)\<close>, ...
  in first-seen order (\<open>b\<close> itself for counter 0), which are pairwise distinct; every
  name given is appended to the visited names.
\<close>

theorem metric_names_numbered:
  assumes same: "\<forall>m \<in> set raw. mname m = b"
  shows "map mname (fst (rename_metrics visited raw)) =
           map (\<lambda>k. suffixed b (length (filter (\<lambda>x. startswith x b) visited) + k)) [0..<length raw]
       \<and> distinct (map mname (fst (rename_metrics visited raw)))
       \<and> snd (rename_metrics visited raw) = visited @ map mname (fst (rename_metrics visited raw))
       \<and> (span_attributes_dict s (Some (a_name a)) = Some sp \<longrightarrow>
            dict_get (fst (create_llm_component E a s)) ''metrics'' =
              Some (PList (map metric_dict (fst (rename_metrics (visited_metrics s) (sa_metrics sp)))))
          \<and> visited_metrics (snd (create_llm_component E a s)) =
              snd (rename_metrics (visited_metrics s) (sa_metrics sp)))"
proof -
  let ?f = "\<lambda>k. suffixed b (length (filter (\<lambda>x. startswith x b) visited) + k)"
  have names: "map mname (fst (rename_metrics visited raw)) = map ?f [0..<length raw]"
    using same by (rule rename_metrics_names)
  have "inj_on ?f (set [0..<length raw])"
    by (rule inj_onI) (auto dest: suffixed_inj)
  then have "distinct (map ?f [0..<length raw])"
    by (simp add: distinct_map)
  with names have dist: "distinct (map mname (fst (rename_metrics visited raw)))"
    by simp
  show ?thesis
    using names dist rename_metrics_visited create_llm_component_metrics by blast
qed

text \<open>
  On a fresh tracer, registering the name \<^verbatim>\<open>m\<close> twice for one span yields \<^verbatim>\<open>m\<close> and
  \<^verbatim>\<open>m_1\<close>.
\<close>

theorem metric_names_numbered_witness:
  "map mname (fst (rename_metrics []
      [\<lparr>mname = ''m'', mfields = [(''score'', PInt 1)]\<rparr>,
       \<lparr>mname = ''m'', mfields = [(''score'', PInt 2)]\<rparr>])) = [''m'', ''m_1'']"
proof -
  let ?raw = "[\<lparr>mname = ''m'', mfields = [(''score'', PInt 1)]\<rparr>,
       \<lparr>mname = ''m'', mfields = [(''score'', PInt 2)]\<rparr>]"
  have same: "\<forall>m \<in> set ?raw. mname m = ''m''" by simp
  have one: "str_nat (Suc 0) = ''1''"
    by code_simp
  from metric_names_numbered [OF same, of "[]"]
  have "map mname (fst (rename_metrics [] ?raw)) =
          map (\<lambda>k. suffixed ''m'' (length (filter (\<lambda>x. startswith x ''m'') []) + k)) [0..<length ?raw]"
    by blast
  then show ?thesis
    by (simp add: suffixed_def one upt_rec [of 0] upt_rec [of 1] del: rename_metrics.simps)
qed

lemma digits: "str_nat (Suc 0) = ''1''" "str_nat (Suc (Suc 0)) = ''2''"
  by code_simp+

text \<open>
  C4, at its failing input. On a fresh tracer a span registers the metric names
  \<^verbatim>\<open>m_1\<close> and \<^verbatim>\<open>m\<close>. The counter of \<^verbatim>\<open>m\<close> counts the visited names that start with it,
  \<^verbatim>\<open>m_1\<close> among them, so \<^verbatim>\<open>m\<close> is renamed \<^verbatim>\<open>m_1\<close>: the built component has two metrics of
  that name, where the names within one component are to be unique. The visited names
  are those of the whole tracer, too: after a first component with a metric \<^verbatim>\<open>m\<close>, a
  span that registers \<^verbatim>\<open>m\<close> twice gets \<^verbatim>\<open>m_1\<close> and \<^verbatim>\<open>m_2\<close>.
\<close>

theorem metric_names_collide:
  "metric_names (fst (create_llm_component quiet_env (llm_args ''third'')
     (trace_llm (Some ''third'') [] [] (MetricList [scored ''m_1'', scored ''m'']) PNone live_tracer)))
     = [''m_1'', ''m_1'']
   \<and> metric_names (fst (create_llm_component quiet_env (llm_args ''second'')
     (trace_llm (Some ''second'') [] [] (MetricList [scored ''m'', scored ''m'']) PNone
       (snd (create_llm_component quiet_env (llm_args ''first'')
         (trace_llm (Some ''first'') [] [] (MetricList [scored ''m'']) PNone live_tracer))))))
     = [''m_1'', ''m_2'']"
  by (simp add: trace_llm_def metrics_truthy_def set_span_def span_def add_metrics_def
      entry_rest_def scored_def llm_args_def metric_names_def metric_name_def suffixed_def
      metric_dict_def digits adapter_defs example_defs Let_def)

section \<open>Removing the patches\<close>

lemma restore_setattr_error: "setattr_error (restore w p) = setattr_error w"
  by (cases p) (simp add: restore_def split: option.splits)

lemma restore_all_setattr_error: "setattr_error (restore_all w ps) = setattr_error w"
  by (induction ps arbitrary: w) (simp_all add: restore_setattr_error)

lemma restore_all_append: "restore_all w (xs @ ys) = restore_all (restore_all w xs) ys"
  by (induction xs arbitrary: w) simp_all

lemma restore_attrs_other:
  "(obj, m) \<noteq> (fst p, fst (snd p)) \<Longrightarrow> attrs (restore w p) (obj, m) = attrs w (obj, m)"
  by (cases p) (auto simp: restore_def split: option.splits)

lemma restore_all_attrs_other:
  "(obj, m) \<notin> set (map (\<lambda>p. (fst p, fst (snd p))) ps) \<Longrightarrow>
   attrs (restore_all w ps) (obj, m) = attrs w (obj, m)"
proof (induction ps arbitrary: w)
  case Nil
  then show ?case by simp
next
  case (Cons p ps)
  then have "(obj, m) \<noteq> (fst p, fst (snd p))"
    and "(obj, m) \<notin> set (map (\<lambda>p. (fst p, fst (snd p))) ps)"
    by auto
  with Cons.IH [of "restore w p"] show ?case
    by (simp add: restore_attrs_other)
qed

lemma restore_all_printed:
  "printed (restore_all w ps) =
     printed w @ concat (map (\<lambda>(obj, m, orig).
        case setattr_error w (obj, m) of
          None \<Rightarrow> []
        | Some msg \<Rightarrow> [''Error unpatching '' @ m @ '': '' @ msg]) ps)"
proof (induction ps arbitrary: w)
  case Nil
  then show ?case by simp
next
  case (Cons p ps)
  obtain obj m orig where p: "p = (obj, m, orig)" by (cases p)
  have "printed (restore w p) = printed w @
          (case setattr_error w (obj, m) of
             None \<Rightarrow> [] | Some msg \<Rightarrow> [''Error unpatching '' @ m @ '': '' @ msg])"
    by (simp add: p restore_def split: option.splits)
  with Cons.IH [of "restore w p"] show ?case
    by (simp add: p restore_setattr_error)
qed

lemma restore_all_last_entry:
  assumes "setattr_error w (obj, m) = None"
    and "(obj, m) \<notin> set (map (\<lambda>p. (fst p, fst (snd p))) post)"
  shows "attrs (restore_all w (pre @ (obj, m, orig) # post)) (obj, m) = Some orig"
proof -
  let ?w1 = "restore_all w pre"
  have "setattr_error ?w1 (obj, m) = None"
    using assms(1) by (simp add: restore_all_setattr_error)
  then have "attrs (restore ?w1 (obj, m, orig)) (obj, m) = Some orig"
    by (simp add: restore_def)
  with restore_all_attrs_other [OF assms(2), of "restore ?w1 (obj, m, orig)"]
  show ?thesis
    by (simp add: restore_all_append)
qed

text \<open>
  C6. \<^verbatim>\<open>unpatch_llm_calls\<close> goes through every recorded entry in order: an entry whose
  target accepts \<^verbatim>\<open>setattr\<close> has its original put back (so the method holds the
  original of the entry, unless a later entry names the same method), an entry whose
  target refuses prints one message, and the entries after it are still handled. The
  registry is empty afterwards, and a second call changes nothing: the registry is empty
  both times. The function returns in every case, as each exception of \<^verbatim>\<open>setattr\<close> is
  caught inside the loop.
\<close>

theorem unpatch_restores_and_clears:
  "patches (fst (unpatch_llm_calls s w)) = []
   \<and> (\<forall>pre obj m orig post.
        patches s = pre @ (obj, m, orig) # post
        \<and> setattr_error w (obj, m) = None
        \<and> (obj, m) \<notin> set (map (\<lambda>p. (fst p, fst (snd p))) post)
        \<longrightarrow> attrs (snd (unpatch_llm_calls s w)) (obj, m) = Some orig)
   \<and> printed (snd (unpatch_llm_calls s w)) =
       printed w @ concat (map (\<lambda>(obj, m, orig).
          case setattr_error w (obj, m) of
            None \<Rightarrow> []
          | Some msg \<Rightarrow> [''Error unpatching '' @ m @ '': '' @ msg]) (patches s))
   \<and> unpatch_llm_calls (fst (unpatch_llm_calls s w)) (snd (unpatch_llm_calls s w))
       = unpatch_llm_calls s w"
proof -
  have a: "patches (fst (unpatch_llm_calls s w)) = []"
    by (simp add: unpatch_llm_calls_def)
  have b: "attrs (snd (unpatch_llm_calls s w)) (obj, m) = Some orig"
    if "patches s = pre @ (obj, m, orig) # post" and "setattr_error w (obj, m) = None"
      and "(obj, m) \<notin> set (map (\<lambda>p. (fst p, fst (snd p))) post)"
    for pre obj m orig post
    using that restore_all_last_entry [of w obj m post pre orig]
    by (simp add: unpatch_llm_calls_def)
  have c: "printed (snd (unpatch_llm_calls s w)) =
       printed w @ concat (map (\<lambda>(obj, m, orig).
          case setattr_error w (obj, m) of
            None \<Rightarrow> []
          | Some msg \<Rightarrow> [''Error unpatching '' @ m @ '': '' @ msg]) (patches s))"
    by (simp add: unpatch_llm_calls_def restore_all_printed)
  have d: "unpatch_llm_calls (fst (unpatch_llm_calls s w)) (snd (unpatch_llm_calls s w))
       = unpatch_llm_calls s w"
    by (simp add: unpatch_llm_calls_def)
  from a b c d show ?thesis by blast
qed

theorem unpatch_restores_and_clears_witness:
  "patches (fst (unpatch_llm_calls patched_tracer patched_world)) = []
   \<and> attrs (snd (unpatch_llm_calls patched_tracer patched_world)) (1, ''create'') = Some 101
   \<and> attrs (snd (unpatch_llm_calls patched_tracer patched_world)) (3, ''completion'') = Some 103
   \<and> printed (snd (unpatch_llm_calls patched_tracer patched_world))
       = [''Error unpatching generate_content: read-only'']"
proof -
  let ?r = "unpatch_llm_calls patched_tracer patched_world"
  have p1: "patches patched_tracer = [] @ (1, ''create'', 101) #
              [(2, ''generate_content'', 102), (3, ''completion'', 103)]
            \<and> setattr_error patched_world (1, ''create'') = None
            \<and> (1, ''create'') \<notin> set (map (\<lambda>p. (fst p, fst (snd p)))
                  [(2, ''generate_content'', 102), (3, ''completion'', 103)])"
    by (simp add: patched_tracer_def patched_world_def)
  have p3: "patches patched_tracer = [(1, ''create'', 101), (2, ''generate_content'', 102)] @
              (3, ''completion'', 103) # []
            \<and> setattr_error patched_world (3, ''completion'') = None
            \<and> (3, ''completion'') \<notin> set (map (\<lambda>p. (fst p, fst (snd p))) [])"
    by (simp add: patched_tracer_def patched_world_def)
  note t = unpatch_restores_and_clears [of patched_tracer patched_world]
  from t have a: "patches (fst ?r) = []" by blast
  from t p1 have b: "attrs (snd ?r) (1, ''create'') = Some 101" by blast
  from t p3 have c: "attrs (snd ?r) (3, ''completion'') = Some 103" by blast
  from t have "printed (snd ?r) =
       printed patched_world @ concat (map (\<lambda>(obj, m, orig).
          case setattr_error patched_world (obj, m) of
            None \<Rightarrow> []
          | Some msg \<Rightarrow> [''Error unpatching '' @ m @ '': '' @ msg]) (patches patched_tracer))"
    by blast
  then have d: "printed (snd ?r) = [''Error unpatching generate_content: read-only'']"
    by (simp add: patched_tracer_def patched_world_def)
  from a b c d show ?thesis by blast
qed

section \<open>Decoration time and the wrappers\<close>

lemmas facade_defs = sync_wrapper_def async_wrapper_def publish_llm_data_def error_info_def
  set_data_gt_def decorated_def adecorated_def decorated_then_fails_def facade_env_def

lemmas register_defs = trace_llm_def metrics_truthy_def set_span_def span_def add_metrics_def
  add_tags_def add_metadata_def add_feedback_def entry_rest_def scored_def unnamed_def KeyError_def

text \<open>
  C9, at its failing input. \<^verbatim>\<open>trace_llm\<close> is given an entry without \<^verbatim>\<open>name\<close> followed by
  a valid entry \<^verbatim>\<open>m\<close>: the \<^verbatim>\<open>KeyError\<close> is logged and \<^verbatim>\<open>trace_llm\<close> does not raise, but
  the valid entry is not registered, since the error leaves the loop. In the other order
  the valid entry is registered.
\<close>

theorem invalid_metric_drops_later_entries:
  "sa_metrics (span (trace_llm (Some ''span'') [] [] (MetricList [unnamed, scored ''m'']) PNone
      live_tracer) (Some ''span'')) = []
   \<and> logged (trace_llm (Some ''span'') [] [] (MetricList [unnamed, scored ''m'']) PNone live_tracer)
       = [''Error adding metric: '' @ [CHR 39] @ ''name'' @ [CHR 39]]
   \<and> map mname (sa_metrics (span (trace_llm (Some ''span'') [] [] (MetricList [scored ''m'', unnamed])
      PNone live_tracer) (Some ''span''))) = [''m'']"
  by (simp add: register_defs adapter_defs example_defs Let_def)

text \<open>
  C3, at its failing input. A decorated function makes one patched call on an active
  tracer without a current agent. The synchronous adapter publishes the component, and
  the \<^verbatim>\<open>finally\<close> block of \<^verbatim>\<open>sync_wrapper\<close> publishes the same component twice more: the
  sink holds it three times. Through \<^verbatim>\<open>async_wrapper\<close> it is published twice. When the
  decorated function raises after its call has returned, the wrapper writes the error
  into the component that is already in the sink and publishes it again.
\<close>

theorem facade_publishes_again:
  "map (\<lambda>c. dict_get c ''id'')
     (components (snd (sync_wrapper facade_env (Some ''span'') decorated [] [] live_tracer)))
     = [Some (PStr ''id-1''), Some (PStr ''id-1''), Some (PStr ''id-1'')]
   \<and> published (snd (async_wrapper facade_env (Some ''span'') adecorated [] [] live_tracer)) = 2
   \<and> map (\<lambda>c. dict_get c ''error'')
     (components (snd (sync_wrapper facade_env (Some ''span'') decorated_then_fails [] [] live_tracer)))
     = [Some PNone,
        Some (PDict [(''type'', PStr ''ValueError''), (''message'', PStr ''bad request''),
                     (''traceback'', PStr ''Traceback''), (''timestamp'', PStr ''t2'')]),
        Some (PDict [(''type'', PStr ''ValueError''), (''message'', PStr ''bad request''),
                     (''traceback'', PStr ''Traceback''), (''timestamp'', PStr ''t2'')])]"
  by (simp add: facade_defs adapter_defs example_defs published_def Let_def)

end
